theory Spec2Isabelle
  imports Main "HOL-Library.Word"
begin

section \<open>The version descriptor of nanorpc\<close>

text \<open>
  The header \<^verbatim>\<open>nanorpc/version/library.h\<close> declares one struct, \<^verbatim>\<open>version\<close>, with four
  static constexpr member functions. None takes an argument and each body is a single
  \<^verbatim>\<open>return\<close> of a literal.
\<close>

subsection \<open>Data\<close>

text \<open>
  \<^verbatim>\<open>int\<close> is taken as a 32-bit two's complement integer, read with \<^const>\<open>sint\<close>.
  A \<^verbatim>\<open>char const*\<close> is either the null pointer (\<^const>\<open>None\<close>) or points to a
  NUL-terminated array, given by the characters in front of the terminator.
\<close>

type_synonym c_int = "32 word"
type_synonym c_str = "string option"

subsection \<open>The member functions of \<^verbatim>\<open>version\<close>\<close>

definition major :: c_int where
  "major = 1"

definition minor :: c_int where
  "minor = 1"

definition patch :: c_int where
  "patch = 1"

definition get_as_string :: c_str where
  "get_as_string = Some ''1.1.1''"

subsection \<open>Calls, as a caller sees them\<close>

text \<open>
  A call of a C++ function either returns a value or leaves by an exception, and it may
  change the program state. The state is kept abstract (\<open>'s\<close>): the four bodies name no
  object, so whatever the state holds, a call hands it back as it received it. All four
  functions are \<^verbatim>\<open>noexcept\<close> and their bodies contain no \<^verbatim>\<open>throw\<close> and no call.
\<close>

datatype accessor = Major | Minor | Patch | Get_as_string

datatype retval = Int_val c_int | Str_val c_str

datatype error = Exception

fun invoke :: "accessor \<Rightarrow> 's \<Rightarrow> (error + retval) \<times> 's" where
  "invoke Major s = (Inr (Int_val major), s)"
| "invoke Minor s = (Inr (Int_val minor), s)"
| "invoke Patch s = (Inr (Int_val patch), s)"
| "invoke Get_as_string s = (Inr (Str_val get_as_string), s)"

text \<open>A sequence of calls, each starting in the state the one before it left.\<close>

fun run :: "accessor list \<Rightarrow> 's \<Rightarrow> (error + retval) list \<times> 's" where
  "run [] s = ([], s)"
| "run (a # as) s =
     (case invoke a s of (r, s') \<Rightarrow>
        (case run as s' of (rs, s'') \<Rightarrow> (r # rs, s'')))"

subsection \<open>The display string of the specification\<close>

text \<open>
  The header formats nothing: the string is a literal of its own. The specification
  describes it as the decimal renderings of the three numbers, joined by dots. The
  definitions below follow the specification's words, to compare the literal against.
\<close>

definition digit_char :: "nat \<Rightarrow> char" where
  "digit_char d = char_of (of_char (CHR ''0'') + d)"

fun spec_decimal_nat :: "nat \<Rightarrow> string" where
  "spec_decimal_nat n =
     (if n < 10 then [digit_char n]
      else spec_decimal_nat (n div 10) @ [digit_char (n mod 10)])"

declare spec_decimal_nat.simps [simp del]

definition spec_decimal :: "int \<Rightarrow> string" where
  "spec_decimal i =
     (if i < 0 then CHR ''-'' # spec_decimal_nat (nat (- i)) else spec_decimal_nat (nat i))"

definition spec_display :: "c_int \<Rightarrow> c_int \<Rightarrow> c_int \<Rightarrow> string" where
  "spec_display ma mi pa =
     spec_decimal (sint ma) @ ''.'' @ spec_decimal (sint mi) @ ''.'' @ spec_decimal (sint pa)"

section \<open>Properties\<close>

subsection \<open>Auxiliary facts\<close>

lemma sint_major: "sint major = 1"
  by (simp add: major_def)

lemma sint_minor: "sint minor = 1"
  by (simp add: minor_def)

lemma sint_patch: "sint patch = 1"
  by (simp add: patch_def)

lemma spec_decimal_one: "spec_decimal 1 = ''1''"
  by code_simp

lemma invoke_state: "snd (invoke a s) = s"
  by (cases a) simp_all

lemma invoke_returns: "\<exists>v. fst (invoke a s) = Inr v"
  by (cases a) simp_all

lemma invoke_any_state: "fst (invoke a s) = fst (invoke a t)"
  by (cases a) simp_all

text \<open>
  A run hands the state back and answers each call as a call in any state \<open>t\<close> would.
\<close>

lemma run_unfold: "run as s = (map (\<lambda>a. fst (invoke a t)) as, s)"
proof (induction as arbitrary: s)
  case Nil
  show ?case by simp
next
  case (Cons a as)
  have "invoke a s = (fst (invoke a t), s)"
    using invoke_state [of a s] invoke_any_state [of a s t]
    by (simp add: prod_eq_iff)
  with Cons.IH [of s] show ?case by simp
qed

subsection \<open>The values\<close>

text \<open>
  C3: \<^verbatim>\<open>major()\<close>, \<^verbatim>\<open>minor()\<close> and \<^verbatim>\<open>patch()\<close> each return the integer 1, as a
  32-bit pattern and read as a signed number, whatever the state they are called in.
\<close>

theorem numeric_accessors_return_one:
  "major = 1 \<and> minor = 1 \<and> patch = 1
   \<and> sint major = 1 \<and> sint minor = 1 \<and> sint patch = 1
   \<and> fst (invoke Major s) = Inr (Int_val 1)
   \<and> fst (invoke Minor s) = Inr (Int_val 1)
   \<and> fst (invoke Patch s) = Inr (Int_val 1)"
  by (simp add: major_def minor_def patch_def)

text \<open>
  C2: \<^verbatim>\<open>get_as_string()\<close> returns exactly the string \<^verbatim>\<open>1.1.1\<close>, whatever the state it is
  called in.
\<close>

theorem get_as_string_literal:
  "get_as_string = Some ''1.1.1''
   \<and> fst (invoke Get_as_string s) = Inr (Str_val (Some ''1.1.1''))"
  by (simp add: get_as_string_def)

text \<open>
  C1: the string returned by \<^verbatim>\<open>get_as_string()\<close> is the decimal rendering of
  \<^verbatim>\<open>major()\<close>, a dot, the decimal rendering of \<^verbatim>\<open>minor()\<close>, a dot, and the decimal
  rendering of \<^verbatim>\<open>patch()\<close>, and nothing else.
\<close>

theorem get_as_string_consistent:
  "get_as_string = Some (spec_display major minor patch)"
  by (simp add: get_as_string_def spec_display_def sint_major sint_minor sint_patch
      spec_decimal_one)

text \<open>
  C9: \<^verbatim>\<open>get_as_string()\<close> returns a pointer that is not null, to a string that is not
  empty: it has exactly 5 characters, none of them the terminator.
\<close>

theorem get_as_string_nonnull_nonempty:
  "get_as_string \<noteq> None
   \<and> (\<exists>str. get_as_string = Some str \<and> str \<noteq> [] \<and> 1 \<le> length str \<and> length str = 5
        \<and> CHR 0x00 \<notin> set str)"
  by (simp add: get_as_string_def)

text \<open>
  C6: the three numbers, read as signed integers, are not negative.
\<close>

theorem numeric_accessors_nonnegative:
  "0 \<le> sint major \<and> 0 \<le> sint minor \<and> 0 \<le> sint patch"
  by (simp add: sint_major sint_minor sint_patch)

text \<open>
  C10: the three numbers, read as signed integers, are strictly positive, so the version
  is never 0.0.0.
\<close>

theorem numeric_accessors_positive:
  "0 < sint major \<and> 0 < sint minor \<and> 0 < sint patch
   \<and> (major, minor, patch) \<noteq> (0, 0, 0)"
  by (simp add: sint_major sint_minor sint_patch major_def)

subsection \<open>Calls\<close>

text \<open>
  C5: none of the four operations can fail. A call of any accessor, in any state, returns
  a value and not an error, and so does every call of any sequence of calls.
\<close>

theorem accessors_never_fail:
  "(\<exists>v. fst (invoke a s) = Inr v) \<and> (\<exists>vs. fst (run as s) = map Inr vs)"
proof
  show "\<exists>v. fst (invoke a s) = Inr v"
    by (rule invoke_returns)
next
  have "\<exists>vs. map (\<lambda>a. fst (invoke a s)) as = map Inr vs"
  proof (induction as)
    case Nil
    show ?case by simp
  next
    case (Cons a as)
    from Cons.IH obtain vs where vs: "map (\<lambda>a. fst (invoke a s)) as = map Inr vs" ..
    from invoke_returns [of a s] obtain v where v: "fst (invoke a s) = Inr v" ..
    from v vs have "map (\<lambda>a. fst (invoke a s)) (a # as) = map Inr (v # vs)"
      by simp
    then show ?case ..
  qed
  then show "\<exists>vs. fst (run as s) = map Inr vs"
    by (simp add: run_unfold [of as s s])
qed

text \<open>
  C7: all four operations are pure reads. A call of any accessor, and any sequence of
  calls of any length, leaves the whole program state as it was.
\<close>

theorem accessors_leave_state:
  "snd (invoke a s) = s \<and> snd (run as s) = s"
  by (simp add: invoke_state run_unfold [of as s s])

text \<open>
  C4: every accessor is deterministic and idempotent. Take any two sequences of calls,
  started in any two states, and a position in each: where the two positions call the
  same accessor, the two results are identical. The two positions may lie in one and the
  same sequence, in either order, with any other calls around and between them.
\<close>

theorem accessors_deterministic:
  assumes "i < length as" and "j < length bs" and "as ! i = bs ! j"
  shows "fst (run as s) ! i = fst (run bs t) ! j"
proof -
  have "fst (run as s) ! i = fst (invoke (as ! i) s)"
    using assms(1) by (simp add: run_unfold [of as s s])
  also have "\<dots> = fst (invoke (bs ! j) t)"
    using assms(3) invoke_any_state [of "bs ! j" s t] by simp
  also have "\<dots> = fst (run bs t) ! j"
    using assms(2) by (simp add: run_unfold [of bs t t])
  finally show ?thesis .
qed

theorem accessors_deterministic_witness:
  "(2::nat) < length [Major, Get_as_string, Major, Patch]
   \<and> (1::nat) < length [Minor, Major]
   \<and> [Major, Get_as_string, Major, Patch] ! 2 = [Minor, Major] ! 1
   \<and> fst (run [Major, Get_as_string, Major, Patch] (0::nat)) ! 2
       = fst (run [Minor, Major] (7::nat)) ! 1
   \<and> fst (run [Major, Get_as_string, Major, Patch] (0::nat)) ! 2 = Inr (Int_val 1)"
  using accessors_deterministic
    [of 2 "[Major, Get_as_string, Major, Patch]" 1 "[Minor, Major]" "0::nat" "7::nat"]
  by (simp add: major_def)

end
